theory Spec2Isabelle
  imports Main
begin

section \<open>deeplx-cli: data model\<close>

text \<open>
  Go strings are byte sequences; they are modelled as \<^typ>\<open>string\<close> (a list of 8-bit
  characters). Go's \<open>int\<close> fields are only ever compared with the constant 200, so they
  are modelled as \<^typ>\<open>int\<close>. An \<open>error\<close> value returned by a library call is an
  opaque message.
\<close>

type_synonym error = string

definition newline :: string where
  "newline = [CHR 0x0A]"

definition defaultDeepLXAPI :: string where
  "defaultDeepLXAPI = ''https://deeplx.vercel.app/translate''"

definition configFileName :: string where
  "configFileName = ''.deeplx-cli.yml''"

text \<open>The struct \<open>Config\<close> (keys \<open>url\<close>, \<open>source_lang\<close>, \<open>target_lang\<close> of the YAML file).\<close>

record Config =
  URL :: string
  SourceLang :: string
  TargetLang :: string

text \<open>
  The struct \<open>TranslationRequest\<close>. Its language fields carry the prefix \<open>req\<close>,
  since record fields are global constants and \<open>Config\<close> has fields of the same name.
\<close>

record TranslationRequest =
  Text :: string
  reqSourceLang :: string
  reqTargetLang :: string

text \<open>The struct \<open>TranslationResponse\<close>.\<close>

record TranslationResponse =
  Code :: int
  ID :: int
  Message :: string
  Data :: string

text \<open>
  What \<open>http.Post\<close> hands back on success: the status code, and the body as the pair
  \<open>io.ReadAll\<close> returns for it (the bytes read, and the read error if there was one).
\<close>

record http_response =
  StatusCode :: int
  Body :: "string \<times> error option"

definition io_ReadAll :: "string \<times> error option \<Rightarrow> string \<times> error option" where
  "io_ReadAll r = r"

text \<open>
  The library calls \<open>translateText\<close> makes. Their code is not part of the repository,
  so they are parameters: \<open>json.Marshal\<close> of a request, \<open>http.Post\<close> (URL, content
  type, body) and \<open>json.Unmarshal\<close> into a zero \<open>TranslationResponse\<close>. Each returns
  \<open>Inl\<close> of the error or \<open>Inr\<close> of the value.
\<close>

record net =
  json_Marshal :: "TranslationRequest \<Rightarrow> error + string"
  http_Post :: "string \<Rightarrow> string \<Rightarrow> string \<Rightarrow> error + http_response"
  json_Unmarshal :: "string \<Rightarrow> error + TranslationResponse"

text \<open>
  The errors \<open>translateText\<close> builds with \<open>fmt.Errorf\<close>, one constructor for each
  format string, with the values the format string prints:
  \<^item> \<open>MarshalError e\<close>: "error marshalling request: %w"
  \<^item> \<open>SendError e\<close>: "error sending request to DeepLX API: %w"
  \<^item> \<open>Non200Status c b\<close>: "DeepLX API returned non-200 status: %d, body: %s"
  \<^item> \<open>ReadBodyError e\<close>: "error reading response body: %w"
  \<^item> \<open>UnmarshalError e\<close>: "error unmarshalling response: %w"
  \<^item> \<open>TranslationFailed c m\<close>: "translation failed with code %d: %s"
\<close>

datatype translate_error =
    MarshalError error
  | SendError error
  | Non200Status int string
  | ReadBodyError error
  | UnmarshalError error
  | TranslationFailed int string

text \<open>An HTTP POST that was issued: URL, content type and body.\<close>

type_synonym post = "string \<times> string \<times> string"

section \<open>translateText\<close>

text \<open>
  \<open>translateText(text, sourceLang, targetLang, apiURL)\<close>. The result is the pair of the
  POSTs issued (none when marshalling fails, one otherwise) and the returned
  \<open>(string, error)\<close>, \<open>Inl\<close> for the error.
\<close>

definition translateText ::
  "net \<Rightarrow> string \<Rightarrow> string \<Rightarrow> string \<Rightarrow> string \<Rightarrow> post list \<times> (translate_error + string)" where
  "translateText n text sourceLang targetLang apiURL =
     (case json_Marshal n \<lparr>Text = text, reqSourceLang = sourceLang, reqTargetLang = targetLang\<rparr> of
        Inl err \<Rightarrow> ([], Inl (MarshalError err))
      | Inr requestBody \<Rightarrow>
          (let posts = [(apiURL, ''application/json'', requestBody)] in
           case http_Post n apiURL ''application/json'' requestBody of
             Inl err \<Rightarrow> (posts, Inl (SendError err))
           | Inr resp \<Rightarrow>
               if StatusCode resp \<noteq> 200 then
                 (let bodyBytes = fst (io_ReadAll (Body resp))
                  in (posts, Inl (Non200Status (StatusCode resp) bodyBytes)))
               else
                 (case io_ReadAll (Body resp) of
                    (bodyBytes, Some err) \<Rightarrow> (posts, Inl (ReadBodyError err))
                  | (bodyBytes, None) \<Rightarrow>
                      (case json_Unmarshal n bodyBytes of
                         Inl err \<Rightarrow> (posts, Inl (UnmarshalError err))
                       | Inr translationResponse \<Rightarrow>
                           if Code translationResponse \<noteq> 200 then
                             (posts, Inl (TranslationFailed (Code translationResponse)
                                            (Message translationResponse)))
                           else (posts, Inr (Data translationResponse))))))"

section \<open>The environment of \<open>main\<close>\<close>

text \<open>
  Errors of the file-system calls. \<open>os.IsNotExist\<close> recognises the first one.
\<close>

datatype os_error = ErrNotExist | ErrOther error

definition os_IsNotExist :: "os_error option \<Rightarrow> bool" where
  "os_IsNotExist err = (err = Some ErrNotExist)"

text \<open>
  The command line as the \<open>flag\<close> package sees it: for each string flag, \<open>None\<close> when
  the flag is absent and \<open>Some v\<close> when it is given with the value \<open>v\<close> (so
  \<open>-text ""\<close> is \<open>Some []\<close>); the value of the variable shared by \<open>-version\<close> and
  \<open>-v\<close> after parsing; and the positional arguments \<open>flag.Args()\<close>. A command line that
  \<open>flag.Parse()\<close> rejects ends the process inside the library, before any of the code
  below the call runs; it has no value of this type.
\<close>

record cli =
  text_flag :: "string option"
  source_lang_flag :: "string option"
  s_flag :: "string option"
  target_lang_flag :: "string option"
  t_flag :: "string option"
  url_flag :: "string option"
  versionFlag :: bool
  Args :: "string list"

text \<open>
  \<open>flag.StringVar(&v, name, dflt, usage)\<close> followed by \<open>flag.Parse()\<close>: the variable
  holds the default unless the flag was given.
\<close>

definition flag_StringVar :: "string \<Rightarrow> string option \<Rightarrow> string" where
  "flag_StringVar dflt given = (case given of None \<Rightarrow> dflt | Some v \<Rightarrow> v)"

text \<open>
  \<open>os.WriteFile\<close> opens the file, creating it or truncating it, then writes the data and
  closes the file. It can fail at the opening, which leaves the files as they were, or
  afterwards, which leaves at the path the bytes that reached the file: none of the
  data, a part of it, or all of it.
\<close>

datatype write_failure = OpenFails error | WriteFails error nat

text \<open>
  Everything outside the program that one run of \<open>main\<close> reads:
  \<^item> \<open>user_Current\<close>: the result of \<open>user.Current()\<close>, the home directory or an error;
  \<^item> \<open>filepath_Join\<close>: the library function \<open>filepath.Join\<close>;
  \<^item> \<open>files\<close>: the files present before the run, by path, with their contents;
  \<^item> \<open>stat_fault\<close>, \<open>read_fault\<close>: an error that makes \<open>os.Stat\<close>, \<open>os.ReadFile\<close>
    fail for a reason other than the file's absence (permissions, I/O error), when
    there is one;
  \<^item> \<open>write_fault\<close>: the way \<open>os.WriteFile\<close> fails, when it does;
  \<^item> \<open>yaml_Marshal\<close>, \<open>yaml_Unmarshal\<close>: the YAML library, the latter decoding into a
    zero \<open>Config\<close>;
  \<^item> \<open>version\<close>: the package variable set by the build flags;
  \<^item> \<open>command_line\<close>, \<open>stdin\<close> (what \<open>io.ReadAll(os.Stdin)\<close> returns), \<open>network\<close>;
  \<^item> \<open>clipboard_WriteAll\<close>: the error of \<open>clipboard.WriteAll\<close> on a text, if any.
\<close>

record world =
  user_Current :: "error + string"
  filepath_Join :: "string \<Rightarrow> string \<Rightarrow> string"
  files :: "string \<rightharpoonup> string"
  stat_fault :: "error option"
  write_fault :: "write_failure option"
  read_fault :: "error option"
  yaml_Marshal :: "Config \<Rightarrow> error + string"
  yaml_Unmarshal :: "string \<Rightarrow> error + Config"
  version :: string
  command_line :: cli
  stdin :: "string \<times> error option"
  network :: net
  clipboard_WriteAll :: "string \<Rightarrow> error option"

text \<open>The error \<open>loadConfig\<close> returns: reading failed, or parsing failed.\<close>

datatype load_error =
    ReadConfigError string os_error
  | ParseConfigError string error

text \<open>
  The lines \<open>main\<close> writes through the \<open>log\<close> package, one constructor for each call:
  \<^item> \<open>FatalCurrentUser e\<close>: "failed to get current user home directory: %v"
  \<^item> \<open>LogConfigNotExist p\<close>: "Config file %s does not exist, generating default config."
  \<^item> \<open>WarnMarshalDefault e\<close>: "Warning: Failed to marshal default config: %v"
  \<^item> \<open>WarnWriteDefault p e\<close>: "Warning: Failed to write default config file %s: %v"
  \<^item> \<open>LogDefaultGenerated p\<close>: "Default config file generated: %s"
  \<^item> \<open>FatalCheckConfig p e\<close>: "failed to check config file %s: %v"
  \<^item> \<open>WarnLoadConfig p e\<close>: "Warning: Failed to load or parse config file %s, ...: %v"
  \<^item> \<open>FatalStdin e\<close>: "failed to read standard input: %v"
  \<^item> \<open>FatalNoText\<close>: "No text provided for translation. ..."
  \<^item> \<open>FatalTranslation e\<close>: "Translation failed: %v"
\<close>

datatype log_line =
    FatalCurrentUser error
  | LogConfigNotExist string
  | WarnMarshalDefault error
  | WarnWriteDefault string os_error
  | LogDefaultGenerated string
  | FatalCheckConfig string os_error
  | WarnLoadConfig string load_error
  | FatalStdin error
  | FatalNoText
  | FatalTranslation translate_error

text \<open>The lines written by \<open>log.Fatalf\<close> (the others are written by \<open>log.Printf\<close>).\<close>

fun is_fatal :: "log_line \<Rightarrow> bool" where
  "is_fatal (FatalCurrentUser e) = True"
| "is_fatal (FatalCheckConfig p e) = True"
| "is_fatal (FatalStdin e) = True"
| "is_fatal FatalNoText = True"
| "is_fatal (FatalTranslation e) = True"
| "is_fatal l = False"

text \<open>The lines that are warnings (their text starts with "Warning:").\<close>

fun is_warning :: "log_line \<Rightarrow> bool" where
  "is_warning (WarnMarshalDefault e) = True"
| "is_warning (WarnWriteDefault p e) = True"
| "is_warning (WarnLoadConfig p e) = True"
| "is_warning l = False"

text \<open>
  What a run has done so far: the files, the calls of \<open>os.WriteFile\<close> (path and data),
  the log lines (standard error), the bytes written to standard output, the POSTs
  issued, and the text put on the clipboard (\<open>None\<close> while the run has put none).
\<close>

record state =
  st_files :: "string \<rightharpoonup> string"
  st_writes :: "(string \<times> string) list"
  st_log :: "log_line list"
  st_stdout :: string
  st_posts :: "post list"
  st_clipboard :: "string option"

definition initial :: "world \<Rightarrow> state" where
  "initial w = \<lparr>st_files = files w, st_writes = [], st_log = [], st_stdout = [],
     st_posts = [], st_clipboard = None\<rparr>"

text \<open>A step of \<open>main\<close> either ends the process with an exit code or goes on with a value.\<close>

datatype 'a run = Exit int state | Cont 'a state

definition log_Printf :: "log_line \<Rightarrow> state \<Rightarrow> state" where
  "log_Printf l s = s\<lparr>st_log := st_log s @ [l]\<rparr>"

text \<open>\<open>log.Fatalf\<close> writes the line and calls \<open>os.Exit(1)\<close>.\<close>

definition log_Fatalf :: "log_line \<Rightarrow> state \<Rightarrow> 'a run" where
  "log_Fatalf l s = Exit 1 (log_Printf l s)"

definition fmt_Print :: "string \<Rightarrow> state \<Rightarrow> state" where
  "fmt_Print str s = s\<lparr>st_stdout := st_stdout s @ str\<rparr>"

text \<open>
  The three file-system calls, on the files of the state. A call of \<open>os.WriteFile\<close> is
  recorded whether it succeeds or not.
\<close>

definition os_Stat :: "world \<Rightarrow> string \<Rightarrow> state \<Rightarrow> os_error option" where
  "os_Stat w path s =
     (case stat_fault w of
        Some e \<Rightarrow> Some (ErrOther e)
      | None \<Rightarrow> (case st_files s path of None \<Rightarrow> Some ErrNotExist | Some d \<Rightarrow> None))"

definition os_WriteFile :: "world \<Rightarrow> string \<Rightarrow> string \<Rightarrow> state \<Rightarrow> os_error option \<times> state" where
  "os_WriteFile w path data s =
     (let s' = s\<lparr>st_writes := st_writes s @ [(path, data)]\<rparr> in
      case write_fault w of
        Some (OpenFails e) \<Rightarrow> (Some (ErrOther e), s')
      | Some (WriteFails e n) \<Rightarrow>
          (Some (ErrOther e), s'\<lparr>st_files := (st_files s')(path \<mapsto> take n data)\<rparr>)
      | None \<Rightarrow> (None, s'\<lparr>st_files := (st_files s')(path \<mapsto> data)\<rparr>))"

definition os_ReadFile :: "world \<Rightarrow> string \<Rightarrow> state \<Rightarrow> os_error + string" where
  "os_ReadFile w path s =
     (case read_fault w of
        Some e \<Rightarrow> Inl (ErrOther e)
      | None \<Rightarrow> (case st_files s path of None \<Rightarrow> Inl ErrNotExist | Some d \<Rightarrow> Inr d))"

section \<open>loadConfig\<close>

definition loadConfig :: "world \<Rightarrow> string \<Rightarrow> state \<Rightarrow> load_error + Config" where
  "loadConfig w configPath s =
     (case os_ReadFile w configPath s of
        Inl err \<Rightarrow> Inl (ReadConfigError configPath err)
      | Inr file \<Rightarrow>
          (case yaml_Unmarshal w file of
             Inl err \<Rightarrow> Inl (ParseConfigError configPath err)
           | Inr config \<Rightarrow> Inr config))"

section \<open>main\<close>

text \<open>The zero value \<open>Config{}\<close>.\<close>

definition zero_Config :: Config where
  "zero_Config = \<lparr>URL = [], SourceLang = [], TargetLang = []\<rparr>"

definition defaultConfig :: Config where
  "defaultConfig = \<lparr>URL = defaultDeepLXAPI, SourceLang = ''auto'', TargetLang = ''EN''\<rparr>"

text \<open>
  The part of \<open>main\<close> under "Load configuration": \<open>os.Stat\<close>, the generation of the
  default file when \<open>os.IsNotExist\<close>, the fatal exit on any other \<open>os.Stat\<close> error,
  then \<open>loadConfig\<close>, whose failure is logged and leaves \<open>cfg\<close> as it is.
\<close>

definition load_stage :: "world \<Rightarrow> string \<Rightarrow> state \<Rightarrow> Config run" where
  "load_stage w configPath s =
     (let cfg = zero_Config;
          err = os_Stat w configPath s;
          checked =
            (if os_IsNotExist err then
               (let s1 = log_Printf (LogConfigNotExist configPath) s;
                    s2 = (case yaml_Marshal w defaultConfig of
                            Inl err \<Rightarrow> log_Printf (WarnMarshalDefault err) s1
                          | Inr yamlData \<Rightarrow>
                              (case os_WriteFile w configPath yamlData s1 of
                                 (Some err, s') \<Rightarrow> log_Printf (WarnWriteDefault configPath err) s'
                               | (None, s') \<Rightarrow> log_Printf (LogDefaultGenerated configPath) s'))
                in Cont defaultConfig s2)
             else
               (case err of
                  Some e \<Rightarrow> log_Fatalf (FatalCheckConfig configPath e) s
                | None \<Rightarrow> Cont cfg s))
      in case checked of
           Exit c s' \<Rightarrow> Exit c s'
         | Cont cfg s' \<Rightarrow>
             (case loadConfig w configPath s' of
                Inl err \<Rightarrow> Cont cfg (log_Printf (WarnLoadConfig configPath err) s')
              | Inr loadedConfig \<Rightarrow> Cont loadedConfig s'))"

text \<open>"Determine final parameters with priority": the three assignments of \<open>main\<close>.\<close>

definition finalURL :: "Config \<Rightarrow> string \<Rightarrow> string" where
  "finalURL cfg urlArg =
     (let finalURL = defaultDeepLXAPI;
          finalURL = (if URL cfg \<noteq> [] then URL cfg else finalURL);
          finalURL = (if urlArg \<noteq> [] then urlArg else finalURL)
      in finalURL)"

definition finalSourceLang :: "Config \<Rightarrow> string \<Rightarrow> string \<Rightarrow> string" where
  "finalSourceLang cfg sourceLangArg sourceLangShortArg =
     (let finalSourceLang = SourceLang cfg in
      if sourceLangArg \<noteq> [] then sourceLangArg
      else if sourceLangShortArg \<noteq> [] then sourceLangShortArg
      else if finalSourceLang = [] then ''auto''
      else finalSourceLang)"

definition finalTargetLang :: "Config \<Rightarrow> string \<Rightarrow> string \<Rightarrow> string" where
  "finalTargetLang cfg targetLangArg targetLangShortArg =
     (let finalTargetLang = TargetLang cfg in
      if targetLangArg \<noteq> [] then targetLangArg
      else if targetLangShortArg \<noteq> [] then targetLangShortArg
      else if finalTargetLang = [] then ''EN''
      else finalTargetLang)"

text \<open>
  The loop over \<open>flag.Args()\<close>: \<open>n\<close> is \<open>len(flag.Args())\<close>, \<open>i\<close> the index of the
  next argument, the last parameter the \<open>inputText\<close> built so far.
\<close>

fun join_loop :: "nat \<Rightarrow> nat \<Rightarrow> string list \<Rightarrow> string \<Rightarrow> string" where
  "join_loop n i [] inputText = inputText"
| "join_loop n i (arg # rest) inputText =
     join_loop n (Suc i) rest
       (let inputText = inputText @ arg
        in if int i < int n - 1 then inputText @ '' '' else inputText)"

text \<open>
  \<open>trimSuffix\<close>, as the repository's earlier \<open>main.go\<close> defines it; \<open>strings.TrimSuffix\<close>,
  which the current one calls, removes the suffix under the same condition.
\<close>

definition trimSuffix :: "string \<Rightarrow> string \<Rightarrow> string" where
  "trimSuffix s suffix =
     (if length s \<ge> length suffix \<and> drop (length s - length suffix) s = suffix
      then take (length s - length suffix) s
      else s)"

definition prompt :: string where
  "prompt = ''Enter text to translate (press Ctrl+D to finish input):''"

text \<open>"Get text to translate": the \<open>-text\<close> value, the positional arguments, or standard input.\<close>

definition inputText :: "world \<Rightarrow> state \<Rightarrow> string run" where
  "inputText w s =
     (let textArg = flag_StringVar [] (text_flag (command_line w));
          args = Args (command_line w)
      in if textArg \<noteq> [] then Cont textArg s
         else if length args > 0 then Cont (join_loop (length args) 0 args []) s
         else
           (let s1 = fmt_Print (prompt @ newline) s in
            case io_ReadAll (stdin w) of
              (bytes, Some err) \<Rightarrow> log_Fatalf (FatalStdin err) s1
            | (bytes, None) \<Rightarrow> Cont (trimSuffix bytes newline) s1))"

text \<open>
  \<open>main\<close> from the flag handling on, with the configuration \<open>cfg\<close> in effect: the
  version flag, the final parameters, the input text, the translation, the clipboard
  and the output. Both branches of the clipboard test are empty in the source; the
  state records the text when the write succeeded.
\<close>

definition translate_stage :: "world \<Rightarrow> Config \<Rightarrow> state \<Rightarrow> unit run" where
  "translate_stage w cfg s =
     (let fl = command_line w;
          sourceLangArg = flag_StringVar [] (source_lang_flag fl);
          sourceLangShortArg = flag_StringVar [] (s_flag fl);
          targetLangArg = flag_StringVar [] (target_lang_flag fl);
          targetLangShortArg = flag_StringVar [] (t_flag fl);
          urlArg = flag_StringVar [] (url_flag fl)
      in if versionFlag fl then
           Exit 0 (fmt_Print (''deeplx-cli version '' @ version w @ newline) s)
         else
           (case inputText w s of
              Exit c s1 \<Rightarrow> Exit c s1
            | Cont text s1 \<Rightarrow>
                if text = [] then log_Fatalf FatalNoText s1
                else
                  (case translateText (network w) text
                          (finalSourceLang cfg sourceLangArg sourceLangShortArg)
                          (finalTargetLang cfg targetLangArg targetLangShortArg)
                          (finalURL cfg urlArg) of
                     (posts, Inl err) \<Rightarrow>
                       log_Fatalf (FatalTranslation err) (s1\<lparr>st_posts := st_posts s1 @ posts\<rparr>)
                   | (posts, Inr translatedText) \<Rightarrow>
                       (let s2 = s1\<lparr>st_posts := st_posts s1 @ posts\<rparr>;
                            s3 = (case clipboard_WriteAll w translatedText of
                                    Some err \<Rightarrow> s2
                                  | None \<Rightarrow> s2\<lparr>st_clipboard := Some translatedText\<rparr>)
                        in Cont () (fmt_Print (translatedText @ newline) s3)))))"

definition main_body :: "world \<Rightarrow> unit run" where
  "main_body w =
     (case user_Current w of
        Inl err \<Rightarrow> log_Fatalf (FatalCurrentUser err) (initial w)
      | Inr HomeDir \<Rightarrow>
          (let configPath = filepath_Join w HomeDir configFileName in
           case load_stage w configPath (initial w) of
             Exit c s \<Rightarrow> Exit c s
           | Cont cfg s \<Rightarrow> translate_stage w cfg s))"

text \<open>
  The outcome of a run: the exit code (0 when \<open>main\<close> returns) and the final state.
\<close>

record outcome =
  exit_code :: int
  final :: state

definition main :: "world \<Rightarrow> outcome" where
  "main w =
     (case main_body w of
        Exit c s \<Rightarrow> \<lparr>exit_code = c, final = s\<rparr>
      | Cont u s \<Rightarrow> \<lparr>exit_code = 0, final = s\<rparr>)"

text \<open>The state a step leaves behind, whether the process goes on or not.\<close>

fun run_state :: "'a run \<Rightarrow> state" where
  "run_state (Exit c s) = s"
| "run_state (Cont a s) = s"

section \<open>Notions the properties are stated with\<close>

text \<open>The HTTP status code and response body an error of \<open>translateText\<close> carries, if any.\<close>

fun status_and_body :: "translate_error \<Rightarrow> (int \<times> string) option" where
  "status_and_body (Non200Status c b) = Some (c, b)"
| "status_and_body e = None"

text \<open>Strings joined with single spaces, in their order.\<close>

fun space_joined :: "string list \<Rightarrow> string" where
  "space_joined [] = []"
| "space_joined [a] = a"
| "space_joined (a # b # rest) = a @ '' '' @ space_joined (b # rest)"

text \<open>A string with one trailing newline removed, when it ends with a newline.\<close>

definition strip_trailing_newline :: "string \<Rightarrow> string" where
  "strip_trailing_newline s = (if s \<noteq> [] \<and> last s = CHR 0x0A then butlast s else s)"

text \<open>
  Two occurrences of a string flag that differ at most in that one is absent where the
  other is given with the empty string; two command lines that differ at most in this way.
\<close>

definition indistinct :: "string option \<Rightarrow> string option \<Rightarrow> bool" where
  "indistinct a b = (a = b \<or> (a = None \<and> b = Some []) \<or> (a = Some [] \<and> b = None))"

definition same_but_empty_flags :: "cli \<Rightarrow> cli \<Rightarrow> bool" where
  "same_but_empty_flags c c' =
     (indistinct (text_flag c) (text_flag c')
      \<and> indistinct (source_lang_flag c) (source_lang_flag c')
      \<and> indistinct (s_flag c) (s_flag c')
      \<and> indistinct (target_lang_flag c) (target_lang_flag c')
      \<and> indistinct (t_flag c) (t_flag c')
      \<and> indistinct (url_flag c) (url_flag c')
      \<and> versionFlag c = versionFlag c'
      \<and> Args c = Args c')"

section \<open>Concrete environments\<close>

text \<open>
  A stub translation service in the manner of the repository's tests: every POST is
  answered with status 200 and a body that decodes to code 200 and data \<open>X\<close>. The
  serialisation of the stub is a stand-in for the JSON library's.
\<close>

definition stub_net :: net where
  "stub_net = \<lparr>
     json_Marshal = (\<lambda>r. Inr (''{text:'' @ Text r @ '',source_lang:'' @ reqSourceLang r
                               @ '',target_lang:'' @ reqTargetLang r @ ''}'')),
     http_Post = (\<lambda>url ctype body. Inr \<lparr>StatusCode = 200, Body = (''{code:200,data:X}'', None)\<rparr>),
     json_Unmarshal = (\<lambda>b. if b = ''{code:200,data:X}''
                            then Inr \<lparr>Code = 200, ID = 0, Message = [], Data = ''X''\<rparr>
                            else Inl ''invalid character'')\<rparr>"

text \<open>Variants of the stub, one for each way a translation can end.\<close>

definition no_marshal_net :: net where
  "no_marshal_net = stub_net\<lparr>json_Marshal := (\<lambda>r. Inl ''unsupported type'')\<rparr>"

definition refused_net :: net where
  "refused_net = stub_net\<lparr>http_Post := (\<lambda>url ctype body. Inl ''connection refused'')\<rparr>"

definition status500_net :: net where
  "status500_net = stub_net\<lparr>http_Post :=
     (\<lambda>url ctype body. Inr \<lparr>StatusCode = 500, Body = (''Internal Server Error'', None)\<rparr>)\<rparr>"

definition broken_body_net :: net where
  "broken_body_net = stub_net\<lparr>http_Post :=
     (\<lambda>url ctype body. Inr \<lparr>StatusCode = 200, Body = (''{code:'', Some ''unexpected EOF'')\<rparr>)\<rparr>"

definition bad_json_net :: net where
  "bad_json_net = stub_net\<lparr>http_Post :=
     (\<lambda>url ctype body. Inr \<lparr>StatusCode = 200, Body = (''<html>'', None)\<rparr>)\<rparr>"

definition code503_net :: net where
  "code503_net = stub_net\<lparr>json_Unmarshal :=
     (\<lambda>b. Inr \<lparr>Code = 503, ID = 0, Message = ''too many requests'', Data = []\<rparr>)\<rparr>"

definition empty_data_net :: net where
  "empty_data_net = stub_net\<lparr>json_Unmarshal :=
     (\<lambda>b. Inr \<lparr>Code = 200, ID = 0, Message = [], Data = []\<rparr>)\<rparr>"

text \<open>
  A configuration file with the values of the test suite's, and a stand-in for the YAML
  library that writes one key per line and reads back that file and the default document;
  an empty file decodes to the zero \<open>Config\<close> without an error.
\<close>

definition testConfig :: string where
  "testConfig = ''url: http://localhost:8080'' @ newline @ ''source_lang: auto'' @ newline
     @ ''target_lang: ZH'' @ newline"

definition example_yaml_Marshal :: "Config \<Rightarrow> error + string" where
  "example_yaml_Marshal c = Inr (''url: '' @ URL c @ newline @ ''source_lang: '' @ SourceLang c
     @ newline @ ''target_lang: '' @ TargetLang c @ newline)"

definition example_yaml_Unmarshal :: "string \<Rightarrow> error + Config" where
  "example_yaml_Unmarshal file =
     (if file = [] then Inr zero_Config
      else if file = testConfig
      then Inr \<lparr>URL = ''http://localhost:8080'', SourceLang = ''auto'', TargetLang = ''ZH''\<rparr>
      else if example_yaml_Marshal defaultConfig = Inr file then Inr defaultConfig
      else Inl ''yaml: unmarshal errors'')"

definition example_cfg :: Config where
  "example_cfg = \<lparr>URL = ''http://localhost:8080'', SourceLang = ''auto'', TargetLang = ''ZH''\<rparr>"

text \<open>
  The run of the end-to-end test: \<open>-text "Test text" -url <stub> -s auto -t ZH\<close>, with
  the configuration file in place.
\<close>

definition example_cli :: cli where
  "example_cli = \<lparr>text_flag = Some ''Test text'', source_lang_flag = None, s_flag = Some ''auto'',
     target_lang_flag = None, t_flag = Some ''ZH'', url_flag = Some ''http://stub'',
     versionFlag = False, Args = []\<rparr>"

definition example_world :: world where
  "example_world = \<lparr>
     user_Current = Inr ''/home/u'',
     filepath_Join = (\<lambda>dir file. dir @ ''/'' @ file),
     files = [''/home/u/.deeplx-cli.yml'' \<mapsto> testConfig],
     stat_fault = None, write_fault = None, read_fault = None,
     yaml_Marshal = example_yaml_Marshal,
     yaml_Unmarshal = example_yaml_Unmarshal,
     version = ''dev'',
     command_line = example_cli,
     stdin = ([], None),
     network = stub_net,
     clipboard_WriteAll = (\<lambda>t. None)\<rparr>"

definition example_body :: string where
  "example_body = ''{text:Test text,source_lang:auto,target_lang:ZH}''"

text \<open>Variants of that run: other sources of the input text, and faults of the environment.\<close>

definition args_world :: world where
  "args_world = example_world\<lparr>command_line :=
     example_cli\<lparr>text_flag := None, Args := [''Hello,'', ''world!'']\<rparr>\<rparr>"

definition stdin_world :: world where
  "stdin_world = example_world\<lparr>command_line := example_cli\<lparr>text_flag := None\<rparr>,
     stdin := (''Hi'' @ newline, None)\<rparr>"

definition empty_stdin_world :: world where
  "empty_stdin_world = example_world\<lparr>command_line := example_cli\<lparr>text_flag := None\<rparr>,
     stdin := (newline, None)\<rparr>"

definition stat_denied_world :: world where
  "stat_denied_world = example_world\<lparr>stat_fault := Some ''permission denied''\<rparr>"

definition first_run_world :: world where
  "first_run_world = example_world\<lparr>files := Map.empty\<rparr>"

definition first_run_readonly_world :: world where
  "first_run_readonly_world = example_world\<lparr>files := Map.empty,
     write_fault := Some (OpenFails ''read-only file system'')\<rparr>"

definition first_run_disk_full_world :: world where
  "first_run_disk_full_world = example_world\<lparr>files := Map.empty,
     write_fault := Some (WriteFails ''no space left on device'' 0)\<rparr>"

definition default_yaml :: string where
  "default_yaml = ''url: https://deeplx.vercel.app/translate'' @ newline @ ''source_lang: auto''
     @ newline @ ''target_lang: EN'' @ newline"

definition unreadable_world :: world where
  "unreadable_world = example_world\<lparr>read_fault := Some ''permission denied''\<rparr>"

definition bad_yaml_world :: world where
  "bad_yaml_world = example_world\<lparr>files := [''/home/u/.deeplx-cli.yml'' \<mapsto> ''url: ['']\<rparr>"

definition empty_data_world :: world where
  "empty_data_world = example_world\<lparr>network := empty_data_net\<rparr>"

definition no_clipboard_world :: world where
  "no_clipboard_world = example_world\<lparr>clipboard_WriteAll := (\<lambda>t. Some ''no clipboard utility'')\<rparr>"

section \<open>Auxiliary facts\<close>

lemmas example_defs = example_world_def example_cli_def example_yaml_Marshal_def
  example_yaml_Unmarshal_def testConfig_def stub_net_def newline_def configFileName_def
  defaultDeepLXAPI_def defaultConfig_def zero_Config_def

lemmas run_defs = main_def main_body_def load_stage_def translate_stage_def inputText_def
  translateText_def loadConfig_def os_Stat_def os_IsNotExist_def os_WriteFile_def os_ReadFile_def
  log_Fatalf_def log_Printf_def fmt_Print_def io_ReadAll_def initial_def flag_StringVar_def
  finalURL_def finalSourceLang_def finalTargetLang_def trimSuffix_def Let_def

lemma final_main: "final (main w) = run_state (main_body w)"
  by (simp add: main_def split: run.splits)

lemma exit_main: "exit_code (main w) = (case main_body w of Exit c s \<Rightarrow> c | Cont u s \<Rightarrow> 0)"
  by (simp add: main_def split: run.splits)

subsection \<open>The loop over the positional arguments and the suffix removal\<close>

lemma join_loop_space_joined:
  "rest \<noteq> [] \<Longrightarrow> n = i + length rest \<Longrightarrow> join_loop n i rest acc = acc @ space_joined rest"
proof (induction rest arbitrary: i acc)
  case Nil
  then show ?case by simp
next
  case (Cons a rest)
  show ?case
  proof (cases rest)
    case Nil
    with Cons.prems show ?thesis by simp
  next
    case (Cons b rest')
    with Cons.prems Cons.IH[of "Suc i" "acc @ a @ '' ''"] show ?thesis
      by (simp add: Let_def)
  qed
qed

lemma trimSuffix_newline: "trimSuffix s newline = strip_trailing_newline s"
proof (cases s rule: rev_cases)
  case Nil
  then show ?thesis by (simp add: trimSuffix_def newline_def strip_trailing_newline_def)
next
  case (snoc ys y)
  then show ?thesis by (simp add: trimSuffix_def newline_def strip_trailing_newline_def)
qed

subsection \<open>The final parameters\<close>

lemma finalURL_eq:
  "finalURL cfg urlArg =
     (if urlArg \<noteq> [] then urlArg else if URL cfg \<noteq> [] then URL cfg else defaultDeepLXAPI)"
  by (simp add: finalURL_def Let_def)



lemma indistinct_StringVar: "indistinct a b \<Longrightarrow> flag_StringVar [] a = flag_StringVar [] b"
  by (auto simp: indistinct_def flag_StringVar_def)

subsection \<open>What each step leaves untouched\<close>

lemma translateText_posts:
  "p \<in> set (fst (translateText n t sl tg u)) \<Longrightarrow>
     fst p = u \<and> fst (snd p) = ''application/json'' \<and>
     json_Marshal n \<lparr>Text = t, reqSourceLang = sl, reqTargetLang = tg\<rparr> = Inr (snd (snd p))"
  by (auto simp: translateText_def Let_def io_ReadAll_def
      split: sum.splits prod.splits option.splits if_splits)

lemma inputText_posts: "st_posts (run_state (inputText w s)) = st_posts s"
  by (simp add: inputText_def Let_def io_ReadAll_def fmt_Print_def log_Fatalf_def log_Printf_def
      split: prod.splits option.splits)

lemma inputText_frame:
  "st_clipboard (run_state (inputText w s)) = st_clipboard s"
  "st_files (run_state (inputText w s)) = st_files s"
  "st_writes (run_state (inputText w s)) = st_writes s"
  by (simp_all add: inputText_def Let_def io_ReadAll_def fmt_Print_def log_Fatalf_def log_Printf_def
      split: prod.splits option.splits)

lemma inputText_text_indep:
  "inputText w s = Cont t s' \<Longrightarrow> \<exists>s1'. inputText w s1 = Cont t s1'"
  by (auto simp: inputText_def Let_def io_ReadAll_def log_Fatalf_def
      split: prod.splits option.splits if_splits)

lemma inputText_stdout:
  "inputText w s = Cont t s1 \<Longrightarrow>
     st_stdout s1 = st_stdout s @
       (if flag_StringVar [] (text_flag (command_line w)) = [] \<and> Args (command_line w) = []
        then prompt @ newline else [])"
  by (auto simp: inputText_def Let_def io_ReadAll_def fmt_Print_def log_Fatalf_def
      split: if_splits prod.splits option.splits)

lemma load_stage_posts: "st_posts (run_state (load_stage w p s)) = st_posts s"
  by (simp add: load_stage_def Let_def log_Fatalf_def log_Printf_def os_WriteFile_def
      split: prod.splits option.splits sum.splits write_failure.splits)

lemma load_stage_frame:
  "st_stdout (run_state (load_stage w p s)) = st_stdout s"
  "st_clipboard (run_state (load_stage w p s)) = st_clipboard s"
  by (simp_all add: load_stage_def Let_def log_Fatalf_def log_Printf_def os_WriteFile_def
      split: prod.splits option.splits sum.splits write_failure.splits)

subsection \<open>The POSTs of a run\<close>

lemma translate_stage_posts:
  assumes "p \<in> set (st_posts (run_state (translate_stage w cfg s)))"
  shows "p \<in> set (st_posts s) \<or>
    (\<exists>t. p \<in> set (fst (translateText (network w) t
          (finalSourceLang cfg (flag_StringVar [] (source_lang_flag (command_line w)))
                               (flag_StringVar [] (s_flag (command_line w))))
          (finalTargetLang cfg (flag_StringVar [] (target_lang_flag (command_line w)))
                               (flag_StringVar [] (t_flag (command_line w))))
          (finalURL cfg (flag_StringVar [] (url_flag (command_line w)))))))"
proof (cases "inputText w s")
  case (Exit c s1)
  with assms inputText_posts[of w s] show ?thesis
    by (auto simp: translate_stage_def Let_def fmt_Print_def split: if_splits)
next
  case (Cont t s1)
  with assms inputText_posts[of w s]
  have "p \<in> set (st_posts s) \<or>
    p \<in> set (fst (translateText (network w) t
          (finalSourceLang cfg (flag_StringVar [] (source_lang_flag (command_line w)))
                               (flag_StringVar [] (s_flag (command_line w))))
          (finalTargetLang cfg (flag_StringVar [] (target_lang_flag (command_line w)))
                               (flag_StringVar [] (t_flag (command_line w))))
          (finalURL cfg (flag_StringVar [] (url_flag (command_line w))))))"
    by (auto simp: translate_stage_def Let_def fmt_Print_def log_Fatalf_def log_Printf_def
        split: if_splits prod.splits sum.splits option.splits)
  then show ?thesis by blast
qed

lemma main_posts:
  assumes "user_Current w = Inr h"
    and "load_stage w (filepath_Join w h configFileName) (initial w) = Cont cfg s"
    and "p \<in> set (st_posts (final (main w)))"
  shows "\<exists>t. p \<in> set (fst (translateText (network w) t
          (finalSourceLang cfg (flag_StringVar [] (source_lang_flag (command_line w)))
                               (flag_StringVar [] (s_flag (command_line w))))
          (finalTargetLang cfg (flag_StringVar [] (target_lang_flag (command_line w)))
                               (flag_StringVar [] (t_flag (command_line w))))
          (finalURL cfg (flag_StringVar [] (url_flag (command_line w))))))"
proof -
  have "st_posts s = []"
    using load_stage_posts[of w "filepath_Join w h configFileName" "initial w"] assms(2)
    by (simp add: initial_def)
  moreover have "p \<in> set (st_posts (run_state (translate_stage w cfg s)))"
    using assms by (simp add: final_main main_body_def Let_def)
  ultimately show ?thesis
    using translate_stage_posts[of p w cfg s] by simp
qed

lemma translate_stage_empty_text:
  assumes "\<not> versionFlag (command_line w)" and "inputText w s = Cont [] s'"
  shows "translate_stage w cfg s = log_Fatalf FatalNoText s'"
  using assms by (simp add: translate_stage_def Let_def)

subsection \<open>The example run\<close>

lemma example_load:
  "load_stage example_world (filepath_Join example_world ''/home/u'' configFileName)
     (initial example_world) = Cont example_cfg (initial example_world)"
  by (simp add: example_defs load_stage_def loadConfig_def os_Stat_def os_IsNotExist_def
      os_ReadFile_def initial_def example_cfg_def Let_def)

lemma example_posts:
  "st_posts (final (main example_world)) = [(''http://stub'', ''application/json'', example_body)]"
  by (simp add: example_defs run_defs example_body_def)

lemma example_main:
  "exit_code (main example_world) = 0"
  "st_stdout (final (main example_world)) = ''X'' @ newline"
  by (simp_all add: example_defs run_defs)

section \<open>The translation client\<close>

text \<open>
  C1, as stated, fails where the HTTP transport fails: then there is no response, and the
  error \<open>translateText\<close> returns wraps the transport error; it carries neither a status
  code nor a response body.
\<close>

theorem translateText_transport_counterexample:
  "snd (translateText refused_net ''hello'' ''auto'' ''ZH'' ''http://localhost:8080'')
     = Inl (SendError ''connection refused'')
   \<and> status_and_body (SendError ''connection refused'') = None"
  by (simp add: translateText_def refused_net_def stub_net_def)

text \<open>
  C1, amended. For every call \<open>translateText(text, sourceLang, targetLang, apiURL)\<close>:
  if serialising the request fails, it returns an error wrapping that failure; if the
  HTTP transport fails, an error wrapping the transport error; if the HTTP status is not
  200, an error carrying the status code and the raw response body; if the status is 200
  and reading the body fails, an error wrapping the read error; if the body fails to
  decode as JSON, an error; if the decoded \<open>code\<close> field is not 200, an error carrying
  that code and the \<open>message\<close> field; otherwise it returns the decoded \<open>data\<close> field.
  It returns an error in exactly the first six cases, and a text in the last one only.
\<close>

theorem translateText_cases:
  fixes n input sourceLang targetLang apiURL
  defines "marshalled \<equiv>
    json_Marshal n \<lparr>Text = input, reqSourceLang = sourceLang, reqTargetLang = targetLang\<rparr>"
  defines "result \<equiv> snd (translateText n input sourceLang targetLang apiURL)"
  shows "(\<forall>e. marshalled = Inl e \<longrightarrow> result = Inl (MarshalError e))
    \<and> (\<forall>b e. marshalled = Inr b \<and> http_Post n apiURL ''application/json'' b = Inl e \<longrightarrow>
          result = Inl (SendError e))
    \<and> (\<forall>b r. marshalled = Inr b \<and> http_Post n apiURL ''application/json'' b = Inr r
              \<and> StatusCode r \<noteq> 200 \<longrightarrow>
          result = Inl (Non200Status (StatusCode r) (fst (Body r))))
    \<and> (\<forall>b r e. marshalled = Inr b \<and> http_Post n apiURL ''application/json'' b = Inr r
              \<and> StatusCode r = 200 \<and> snd (Body r) = Some e \<longrightarrow>
          result = Inl (ReadBodyError e))
    \<and> (\<forall>b r e. marshalled = Inr b \<and> http_Post n apiURL ''application/json'' b = Inr r
              \<and> StatusCode r = 200 \<and> snd (Body r) = None
              \<and> json_Unmarshal n (fst (Body r)) = Inl e \<longrightarrow>
          result = Inl (UnmarshalError e))
    \<and> (\<forall>b r t. marshalled = Inr b \<and> http_Post n apiURL ''application/json'' b = Inr r
              \<and> StatusCode r = 200 \<and> snd (Body r) = None
              \<and> json_Unmarshal n (fst (Body r)) = Inr t \<and> Code t \<noteq> 200 \<longrightarrow>
          result = Inl (TranslationFailed (Code t) (Message t)))
    \<and> (\<forall>b r t. marshalled = Inr b \<and> http_Post n apiURL ''application/json'' b = Inr r
              \<and> StatusCode r = 200 \<and> snd (Body r) = None
              \<and> json_Unmarshal n (fst (Body r)) = Inr t \<and> Code t = 200 \<longrightarrow>
          result = Inr (Data t))
    \<and> ((\<exists>translated. result = Inr translated) \<longleftrightarrow>
         (\<exists>b r t. marshalled = Inr b \<and> http_Post n apiURL ''application/json'' b = Inr r
              \<and> StatusCode r = 200 \<and> snd (Body r) = None
              \<and> json_Unmarshal n (fst (Body r)) = Inr t \<and> Code t = 200))"
  unfolding marshalled_def result_def translateText_def io_ReadAll_def
  by (auto simp: Let_def split: sum.splits prod.splits option.splits)

text \<open>The seven cases of C1, each at a stub service that takes it.\<close>

theorem translateText_cases_witness:
  "snd (translateText no_marshal_net ''hello'' ''auto'' ''ZH'' ''http://stub'')
     = Inl (MarshalError ''unsupported type'')
   \<and> snd (translateText refused_net ''hello'' ''auto'' ''ZH'' ''http://stub'')
     = Inl (SendError ''connection refused'')
   \<and> snd (translateText status500_net ''hello'' ''auto'' ''ZH'' ''http://stub'')
     = Inl (Non200Status 500 ''Internal Server Error'')
   \<and> snd (translateText broken_body_net ''hello'' ''auto'' ''ZH'' ''http://stub'')
     = Inl (ReadBodyError ''unexpected EOF'')
   \<and> snd (translateText bad_json_net ''hello'' ''auto'' ''ZH'' ''http://stub'')
     = Inl (UnmarshalError ''invalid character'')
   \<and> snd (translateText code503_net ''hello'' ''auto'' ''ZH'' ''http://stub'')
     = Inl (TranslationFailed 503 ''too many requests'')
   \<and> snd (translateText stub_net ''hello'' ''auto'' ''ZH'' ''http://stub'') = Inr ''X''"
  using translateText_cases[of no_marshal_net "''hello''" "''auto''" "''ZH''" "''http://stub''"]
    translateText_cases[of refused_net "''hello''" "''auto''" "''ZH''" "''http://stub''"]
    translateText_cases[of status500_net "''hello''" "''auto''" "''ZH''" "''http://stub''"]
    translateText_cases[of broken_body_net "''hello''" "''auto''" "''ZH''" "''http://stub''"]
    translateText_cases[of bad_json_net "''hello''" "''auto''" "''ZH''" "''http://stub''"]
    translateText_cases[of code503_net "''hello''" "''auto''" "''ZH''" "''http://stub''"]
    translateText_cases[of stub_net "''hello''" "''auto''" "''ZH''" "''http://stub''"]
  by (simp add: no_marshal_net_def refused_net_def status500_net_def broken_body_net_def
      bad_json_net_def code503_net_def stub_net_def)

text \<open>
  C10. A response with HTTP status 200 whose body decodes to \<open>code\<close> 200 and an empty
  \<open>data\<close> field is a success: \<open>translateText\<close> returns the empty string, and the run
  exits with status 0 after printing the bare newline of the result. That newline is all
  of standard output when the text came from \<open>-text\<close> or the positional arguments; when
  it was read from standard input, the prompt line precedes it.
\<close>

theorem empty_translation_is_success:
  fixes w cfg
  defines "sl \<equiv> finalSourceLang cfg (flag_StringVar [] (source_lang_flag (command_line w)))
                                     (flag_StringVar [] (s_flag (command_line w)))"
  defines "tg \<equiv> finalTargetLang cfg (flag_StringVar [] (target_lang_flag (command_line w)))
                                     (flag_StringVar [] (t_flag (command_line w)))"
  defines "url \<equiv> finalURL cfg (flag_StringVar [] (url_flag (command_line w)))"
  assumes "user_Current w = Inr h"
    and "load_stage w (filepath_Join w h configFileName) (initial w) = Cont cfg s"
    and "\<not> versionFlag (command_line w)"
    and "inputText w s = Cont input s1" and "input \<noteq> []"
    and "json_Marshal (network w) \<lparr>Text = input, reqSourceLang = sl, reqTargetLang = tg\<rparr> = Inr b"
    and "http_Post (network w) url ''application/json'' b = Inr r"
    and "StatusCode r = 200" and "Body r = (bytes, None)"
    and "json_Unmarshal (network w) bytes = Inr t" and "Code t = 200" and "Data t = []"
  shows "snd (translateText (network w) input sl tg url) = Inr []
       \<and> exit_code (main w) = 0
       \<and> st_stdout (final (main w)) =
           (if flag_StringVar [] (text_flag (command_line w)) = [] \<and> Args (command_line w) = []
            then prompt @ newline else []) @ newline"
proof -
  have tr: "translateText (network w) input sl tg url = ([(url, ''application/json'', b)], Inr [])"
    using assms(9-15) by (simp add: translateText_def Let_def io_ReadAll_def)
  have "st_stdout s = []"
    using load_stage_frame(1)[of w "filepath_Join w h configFileName" "initial w"] assms(5)
    by (simp add: initial_def)
  with inputText_stdout[OF assms(7)]
  have out: "st_stdout s1 =
      (if flag_StringVar [] (text_flag (command_line w)) = [] \<and> Args (command_line w) = []
       then prompt @ newline else [])"
    by simp
  have "translate_stage w cfg s =
      Cont () (fmt_Print newline
        (case clipboard_WriteAll w [] of
           Some err \<Rightarrow> s1\<lparr>st_posts := st_posts s1 @ [(url, ''application/json'', b)]\<rparr>
         | None \<Rightarrow> s1\<lparr>st_posts := st_posts s1 @ [(url, ''application/json'', b)],
                      st_clipboard := Some []\<rparr>))"
    using assms(6,7,8) tr[unfolded sl_def tg_def url_def]
    by (simp add: translate_stage_def Let_def sl_def tg_def url_def split: option.splits)
  then have "main_body w = Cont () (fmt_Print newline
        (case clipboard_WriteAll w [] of
           Some err \<Rightarrow> s1\<lparr>st_posts := st_posts s1 @ [(url, ''application/json'', b)]\<rparr>
         | None \<Rightarrow> s1\<lparr>st_posts := st_posts s1 @ [(url, ''application/json'', b)],
                      st_clipboard := Some []\<rparr>))"
    using assms(4,5) by (simp add: main_body_def Let_def)
  then show ?thesis
    using tr out by (simp add: main_def fmt_Print_def split: option.splits)
qed

text \<open>C10 at the end-to-end run against a stub that answers with empty \<open>data\<close>.\<close>

theorem empty_translation_is_success_witness:
  "snd (translateText (network empty_data_world) ''Test text'' ''auto'' ''ZH'' ''http://stub'') = Inr []
   \<and> exit_code (main empty_data_world) = 0
   \<and> st_stdout (final (main empty_data_world)) = newline"
proof -
  let ?w = empty_data_world
  have h1: "user_Current ?w = Inr ''/home/u''"
    by (simp add: empty_data_world_def example_defs)
  have h2: "load_stage ?w (filepath_Join ?w ''/home/u'' configFileName) (initial ?w)
              = Cont example_cfg (initial ?w)"
    by (simp add: empty_data_world_def example_defs load_stage_def loadConfig_def os_Stat_def
        os_IsNotExist_def os_ReadFile_def initial_def example_cfg_def Let_def)
  have h3: "\<not> versionFlag (command_line ?w)"
    by (simp add: empty_data_world_def example_defs)
  have h4: "inputText ?w (initial ?w) = Cont ''Test text'' (initial ?w)"
    by (simp add: empty_data_world_def example_defs inputText_def flag_StringVar_def Let_def)
  have h5: "''Test text'' \<noteq> []" by simp
  have fl: "finalSourceLang example_cfg (flag_StringVar [] (source_lang_flag (command_line ?w)))
              (flag_StringVar [] (s_flag (command_line ?w))) = ''auto''"
    "finalTargetLang example_cfg (flag_StringVar [] (target_lang_flag (command_line ?w)))
              (flag_StringVar [] (t_flag (command_line ?w))) = ''ZH''"
    "finalURL example_cfg (flag_StringVar [] (url_flag (command_line ?w))) = ''http://stub''"
    by (simp_all add: empty_data_world_def example_defs example_cfg_def flag_StringVar_def
        finalSourceLang_def finalTargetLang_def finalURL_def)
  have h6: "json_Marshal (network ?w)
      \<lparr>Text = ''Test text'',
       reqSourceLang = finalSourceLang example_cfg
          (flag_StringVar [] (source_lang_flag (command_line ?w)))
          (flag_StringVar [] (s_flag (command_line ?w))),
       reqTargetLang = finalTargetLang example_cfg
          (flag_StringVar [] (target_lang_flag (command_line ?w)))
          (flag_StringVar [] (t_flag (command_line ?w)))\<rparr> = Inr example_body"
    unfolding fl by (simp add: empty_data_world_def example_world_def empty_data_net_def
        stub_net_def example_body_def)
  have h7: "http_Post (network ?w)
      (finalURL example_cfg (flag_StringVar [] (url_flag (command_line ?w))))
      ''application/json'' example_body
      = Inr \<lparr>StatusCode = 200, Body = (''{code:200,data:X}'', None)\<rparr>"
    by (simp add: empty_data_world_def example_world_def empty_data_net_def stub_net_def)
  have h8: "StatusCode \<lparr>StatusCode = 200, Body = (''{code:200,data:X}'', None)\<rparr> = 200"
    "Body \<lparr>StatusCode = 200, Body = (''{code:200,data:X}'', None)\<rparr>
       = (''{code:200,data:X}'', None)"
    by simp_all
  have h9: "json_Unmarshal (network ?w) ''{code:200,data:X}''
      = Inr \<lparr>Code = 200, ID = 0, Message = [], Data = []\<rparr>"
    by (simp add: empty_data_world_def example_world_def empty_data_net_def stub_net_def)
  have h10: "Code \<lparr>Code = 200, ID = 0, Message = [], Data = []\<rparr> = 200"
    "Data \<lparr>Code = 200, ID = 0, Message = [], Data = []\<rparr> = []"
    by simp_all
  show ?thesis
    using empty_translation_is_success[OF h1 h2 h3 h4 h5 h6 h7 h8 h9 h10]
    unfolding fl
    by (simp add: empty_data_world_def example_defs flag_StringVar_def)
qed

section \<open>The merge of arguments and configuration\<close>

text \<open>
  C2. The input text is resolved in a fixed order: the value of \<open>-text\<close> when it is not
  empty; otherwise, when there is at least one positional argument, the positional
  arguments joined with single spaces in their order; otherwise standard input read to
  its end (after the prompt is printed), with one trailing newline removed.
\<close>

theorem inputText_resolution:
  fixes w s
  defines "textArg \<equiv> flag_StringVar [] (text_flag (command_line w))"
  defines "args \<equiv> Args (command_line w)"
  shows "(textArg \<noteq> [] \<longrightarrow> inputText w s = Cont textArg s)
       \<and> (textArg = [] \<and> args \<noteq> [] \<longrightarrow> inputText w s = Cont (space_joined args) s)
       \<and> (\<forall>bytes. textArg = [] \<and> args = [] \<and> stdin w = (bytes, None) \<longrightarrow>
            inputText w s = Cont (strip_trailing_newline bytes) (fmt_Print (prompt @ newline) s))"
  unfolding textArg_def args_def
  by (simp add: inputText_def Let_def io_ReadAll_def join_loop_space_joined trimSuffix_newline)

text \<open>
  C2 at three runs: \<open>-text "Test text"\<close>; the positional arguments \<open>Hello,\<close> and
  \<open>world!\<close>; and neither, with \<open>Hi\<close> and a newline on standard input, which resolves
  to \<open>Hi\<close>.
\<close>

theorem inputText_resolution_witness:
  "inputText example_world (initial example_world) = Cont ''Test text'' (initial example_world)
   \<and> inputText args_world (initial args_world) = Cont ''Hello, world!'' (initial args_world)
   \<and> inputText stdin_world (initial stdin_world)
       = Cont ''Hi'' (fmt_Print (prompt @ newline) (initial stdin_world))"
  using inputText_resolution[of example_world "initial example_world"]
    inputText_resolution[of args_world "initial args_world"]
    inputText_resolution[of stdin_world "initial stdin_world"]
  by (simp add: example_defs args_world_def stdin_world_def flag_StringVar_def
      strip_trailing_newline_def)



text \<open>
  C4. Every request a run posts goes to the effective URL: the value of \<open>-url\<close> if it is
  not empty, else the \<open>url\<close> of the configuration in effect if it is not empty, else the
  built-in default. So a non-empty flag overrides the configuration whenever both are set.
\<close>

theorem url_precedence:
  fixes w
  defines "urlArg \<equiv> flag_StringVar [] (url_flag (command_line w))"
  assumes "user_Current w = Inr h"
    and "load_stage w (filepath_Join w h configFileName) (initial w) = Cont cfg s"
    and "p \<in> set (st_posts (final (main w)))"
  shows "fst p = (if urlArg \<noteq> [] then urlArg
                  else if URL cfg \<noteq> [] then URL cfg
                  else defaultDeepLXAPI)"
  using main_posts[OF assms(2,3,4)] translateText_posts
  unfolding urlArg_def finalURL_eq by blast

text \<open>
  C4 at the end-to-end run: the configuration names \<open>http://localhost:8080\<close>, the flag
  names the stub, and the request goes to the stub.
\<close>

theorem url_precedence_witness:
  "(''http://stub'', ''application/json'', example_body) \<in> set (st_posts (final (main example_world)))
   \<and> URL example_cfg = ''http://localhost:8080''
   \<and> fst (''http://stub'', ''application/json'', example_body) = ''http://stub''"
proof -
  have h: "user_Current example_world = Inr ''/home/u''"
    by (simp add: example_world_def)
  have p: "(''http://stub'', ''application/json'', example_body)
             \<in> set (st_posts (final (main example_world)))"
    by (simp add: example_posts)
  show ?thesis
    using p url_precedence[OF h example_load p]
    by (simp add: example_world_def example_cli_def flag_StringVar_def example_cfg_def)
qed

text \<open>
  C6. Whenever the input text resolves to the empty string and the version flag is not
  set (with it, the process has printed the version and exited before the text is
  looked at), the process exits with status 1 and a fatal diagnostic as its last log
  line, without posting a request or touching the clipboard; unless an earlier step was
  fatal already, the diagnostic is the one for a missing text.
\<close>

theorem empty_input_is_fatal:
  assumes "\<not> versionFlag (command_line w)" and "inputText w s = Cont [] s'"
  shows "exit_code (main w) = 1
       \<and> st_posts (final (main w)) = []
       \<and> st_clipboard (final (main w)) = None
       \<and> (\<exists>ls l. st_log (final (main w)) = ls @ [l] \<and> is_fatal l)
       \<and> (\<forall>h. user_Current w = Inr h \<and> stat_fault w = None \<longrightarrow>
             last (st_log (final (main w))) = FatalNoText)"
proof (cases "user_Current w")
  case (Inl err)
  then show ?thesis
    by (simp add: exit_main final_main main_body_def log_Fatalf_def log_Printf_def initial_def)
next
  case (Inr h)
  let ?p = "filepath_Join w h configFileName"
  show ?thesis
  proof (cases "load_stage w ?p (initial w)")
    case (Exit c s1)
    then have "stat_fault w \<noteq> None \<and> c = 1 \<and> (\<exists>ls l. st_log s1 = ls @ [l] \<and> is_fatal l)
        \<and> st_posts s1 = [] \<and> st_clipboard s1 = None"
      by (auto simp: load_stage_def Let_def log_Fatalf_def log_Printf_def os_Stat_def
          os_IsNotExist_def initial_def split: option.splits sum.splits prod.splits if_splits)
    with Inr Exit show ?thesis
      by (auto simp: exit_main final_main main_body_def Let_def)
  next
    case (Cont cfg s1)
    from assms(2) obtain s2 where t: "inputText w s1 = Cont [] s2"
      using inputText_text_indep by blast
    have "st_posts s1 = []" "st_clipboard s1 = None"
      using load_stage_posts[of w ?p "initial w"] load_stage_frame(2)[of w ?p "initial w"] Cont
      by (simp_all add: initial_def)
    moreover have "st_posts s2 = st_posts s1" "st_clipboard s2 = st_clipboard s1"
      using inputText_posts[of w s1] inputText_frame(1)[of w s1] t by simp_all
    moreover have "main_body w = log_Fatalf FatalNoText s2"
      using Inr Cont translate_stage_empty_text[OF assms(1) t]
      by (simp add: main_body_def Let_def)
    ultimately show ?thesis
      by (simp add: exit_main final_main log_Fatalf_def log_Printf_def)
  qed
qed

text \<open>C6 at a run with no \<open>-text\<close>, no positional argument and a lone newline on standard input.\<close>

theorem empty_input_is_fatal_witness:
  "exit_code (main empty_stdin_world) = 1
   \<and> st_posts (final (main empty_stdin_world)) = []
   \<and> last (st_log (final (main empty_stdin_world))) = FatalNoText"
proof -
  have v: "\<not> versionFlag (command_line empty_stdin_world)"
    by (simp add: empty_stdin_world_def example_defs)
  have t: "inputText empty_stdin_world (initial empty_stdin_world)
             = Cont [] (fmt_Print (prompt @ newline) (initial empty_stdin_world))"
    by (simp add: empty_stdin_world_def example_defs inputText_def flag_StringVar_def
        io_ReadAll_def trimSuffix_def Let_def)
  have h: "user_Current empty_stdin_world = Inr ''/home/u''" "stat_fault empty_stdin_world = None"
    by (simp_all add: empty_stdin_world_def example_defs)
  show ?thesis
    using empty_input_is_fatal[OF v t] h by simp
qed

text \<open>
  C9. A string flag given with the empty string cannot be told from an absent one: two
  command lines that differ only in that make the run behave the same in every respect
  (exit code, output, log, requests, files, clipboard). In particular \<open>-text ""\<close> falls
  through to the positional arguments or standard input, and \<open>-url ""\<close> or an empty
  language flag overrides neither the configuration nor the default.
\<close>

theorem empty_flag_is_absent:
  assumes "same_but_empty_flags c c'"
  shows "main (w\<lparr>command_line := c\<rparr>) = main (w\<lparr>command_line := c'\<rparr>)"
proof -
  let ?w = "w\<lparr>command_line := c\<rparr>" and ?w' = "w\<lparr>command_line := c'\<rparr>"
  have fl: "flag_StringVar [] (text_flag c) = flag_StringVar [] (text_flag c')"
    "flag_StringVar [] (source_lang_flag c) = flag_StringVar [] (source_lang_flag c')"
    "flag_StringVar [] (s_flag c) = flag_StringVar [] (s_flag c')"
    "flag_StringVar [] (target_lang_flag c) = flag_StringVar [] (target_lang_flag c')"
    "flag_StringVar [] (t_flag c) = flag_StringVar [] (t_flag c')"
    "flag_StringVar [] (url_flag c) = flag_StringVar [] (url_flag c')"
    "versionFlag c = versionFlag c'" "Args c = Args c'"
    using assms by (simp_all add: same_but_empty_flags_def indistinct_StringVar)
  have sel: "user_Current ?w = user_Current w" "filepath_Join ?w = filepath_Join w"
    "files ?w = files w" "stat_fault ?w = stat_fault w" "write_fault ?w = write_fault w"
    "read_fault ?w = read_fault w" "yaml_Marshal ?w = yaml_Marshal w"
    "yaml_Unmarshal ?w = yaml_Unmarshal w" "version ?w = version w"
    "command_line ?w = c" "stdin ?w = stdin w" "network ?w = network w"
    "clipboard_WriteAll ?w = clipboard_WriteAll w"
    "user_Current ?w' = user_Current w" "filepath_Join ?w' = filepath_Join w"
    "files ?w' = files w" "stat_fault ?w' = stat_fault w" "write_fault ?w' = write_fault w"
    "read_fault ?w' = read_fault w" "yaml_Marshal ?w' = yaml_Marshal w"
    "yaml_Unmarshal ?w' = yaml_Unmarshal w" "version ?w' = version w"
    "command_line ?w' = c'" "stdin ?w' = stdin w" "network ?w' = network w"
    "clipboard_WriteAll ?w' = clipboard_WriteAll w"
    by simp_all
  have ld: "load_stage ?w p s = load_stage ?w' p s" for p s
    unfolding load_stage_def os_Stat_def os_WriteFile_def loadConfig_def os_ReadFile_def sel
    by (rule refl)
  have it: "inputText ?w s = inputText ?w' s" for s
    unfolding inputText_def sel fl by (rule refl)
  have ini: "initial ?w = initial ?w'"
    unfolding initial_def sel by (rule refl)
  have ts: "translate_stage ?w cfg s = translate_stage ?w' cfg s" for cfg s
    unfolding translate_stage_def Let_def it sel fl by (rule refl)
  have "main_body ?w = main_body ?w'"
    unfolding main_body_def ld ini ts sel by (rule refl)
  then show ?thesis
    by (simp add: main_def)
qed

text \<open>
  C9 at the end-to-end run with \<open>-source_lang ""\<close> and \<open>-url ""\<close> against the same run
  without them, and at the run that reads standard input with \<open>-text ""\<close> against the
  one without \<open>-text\<close>.
\<close>

theorem empty_flag_is_absent_witness:
  "main (example_world\<lparr>command_line := example_cli\<lparr>source_lang_flag := Some [], url_flag := Some []\<rparr>\<rparr>)
   = main (example_world\<lparr>command_line := example_cli\<lparr>source_lang_flag := None, url_flag := None\<rparr>\<rparr>)
   \<and> main (stdin_world\<lparr>command_line := example_cli\<lparr>text_flag := Some []\<rparr>\<rparr>)
   = main (stdin_world\<lparr>command_line := example_cli\<lparr>text_flag := None\<rparr>\<rparr>)"
  using empty_flag_is_absent[of "example_cli\<lparr>source_lang_flag := Some [], url_flag := Some []\<rparr>"
      "example_cli\<lparr>source_lang_flag := None, url_flag := None\<rparr>" example_world]
    empty_flag_is_absent[of "example_cli\<lparr>text_flag := Some []\<rparr>"
      "example_cli\<lparr>text_flag := None\<rparr>" stdin_world]
  by (simp add: same_but_empty_flags_def indistinct_def example_cli_def)

section \<open>The configuration loader\<close>

text \<open>
  C5, as stated, fails where \<open>os.Stat\<close> fails for a reason other than the file's
  absence: \<open>main\<close> then calls \<open>log.Fatalf\<close>, and the process exits with status 1.
\<close>

theorem stat_failure_counterexample:
  "exit_code (main stat_denied_world) = 1
   \<and> st_log (final (main stat_denied_world))
       = [FatalCheckConfig ''/home/u/.deeplx-cli.yml'' (ErrOther ''permission denied'')]"
  by (simp add: stat_denied_world_def example_defs run_defs)

text \<open>
  C5, amended. When the home directory is known and \<open>os.Stat\<close> does not fail for a
  reason other than absence, no outcome concerning the configuration file ends the
  process: the loader logs no fatal line and \<open>main\<close> goes on to the flags with a
  configuration \<open>cfg\<close>.
  \<^item> File absent: the absence is logged, and \<open>cfg\<close> is the default configuration or what
    the document written at the path (the default document, or the part of it a failed
    write left) parses to.
  \<^item> File absent and the default does not serialise: a warning is logged and \<open>cfg\<close> is
    the default configuration.
  \<^item> File absent and the write succeeds: the generation is logged, and \<open>cfg\<close> is what the
    written document parses to, or the default configuration if it cannot be read back
    or does not parse.
  \<^item> File absent and the write fails at the opening: a warning is logged and \<open>cfg\<close> is
    the default configuration.
  \<^item> File absent and the write fails after the opening: a warning is logged, and \<open>cfg\<close>
    is what the bytes left at the path parse to (for an empty file, whatever the YAML
    library makes of an empty document), or the default configuration, with a second
    warning, if they cannot be read back or do not parse.
  \<^item> File unreadable: a warning is logged and \<open>cfg\<close> is the default configuration (file
    absent before the run) or the empty one (file present).
  \<^item> File present and not parsing as YAML: a warning is logged and \<open>cfg\<close> is the empty
    configuration.
  When \<open>os.Stat\<close> fails for another reason, the process logs that it could not check the
  file and exits with status 1, having done nothing else.
\<close>

theorem config_problems_not_fatal:
  fixes w h
  defines "configPath \<equiv> filepath_Join w h configFileName"
  assumes "user_Current w = Inr h"
  shows "(stat_fault w = None \<longrightarrow>
      (\<exists>cfg s. load_stage w configPath (initial w) = Cont cfg s
        \<and> main_body w = translate_stage w cfg s
        \<and> (\<forall>l \<in> set (st_log s). \<not> is_fatal l)
        \<and> (files w configPath = None \<longrightarrow>
              LogConfigNotExist configPath \<in> set (st_log s)
              \<and> (cfg = defaultConfig
                 \<or> (\<exists>d n. yaml_Marshal w defaultConfig = Inr d
                          \<and> yaml_Unmarshal w (take n d) = Inr cfg)))
        \<and> (\<forall>e. files w configPath = None \<and> yaml_Marshal w defaultConfig = Inl e \<longrightarrow>
              WarnMarshalDefault e \<in> set (st_log s) \<and> cfg = defaultConfig)
        \<and> (\<forall>d. files w configPath = None \<and> yaml_Marshal w defaultConfig = Inr d
                 \<and> write_fault w = None \<longrightarrow>
              LogDefaultGenerated configPath \<in> set (st_log s)
              \<and> cfg = (if read_fault w = None
                       then (case yaml_Unmarshal w d of Inr c \<Rightarrow> c | Inl e' \<Rightarrow> defaultConfig)
                       else defaultConfig))
        \<and> (\<forall>d e. files w configPath = None \<and> yaml_Marshal w defaultConfig = Inr d
                   \<and> write_fault w = Some (OpenFails e) \<longrightarrow>
              WarnWriteDefault configPath (ErrOther e) \<in> set (st_log s) \<and> cfg = defaultConfig)
        \<and> (\<forall>d e n. files w configPath = None \<and> yaml_Marshal w defaultConfig = Inr d
                   \<and> write_fault w = Some (WriteFails e n) \<longrightarrow>
              WarnWriteDefault configPath (ErrOther e) \<in> set (st_log s)
              \<and> cfg = (if read_fault w = None
                       then (case yaml_Unmarshal w (take n d) of
                               Inr c \<Rightarrow> c | Inl e' \<Rightarrow> defaultConfig)
                       else defaultConfig)
              \<and> (\<forall>e'. read_fault w = None \<and> yaml_Unmarshal w (take n d) = Inl e' \<longrightarrow>
                    WarnLoadConfig configPath (ParseConfigError configPath e') \<in> set (st_log s)))
        \<and> (\<forall>e. read_fault w = Some e \<longrightarrow>
              WarnLoadConfig configPath (ReadConfigError configPath (ErrOther e)) \<in> set (st_log s)
              \<and> cfg = (if files w configPath = None then defaultConfig else zero_Config))
        \<and> (\<forall>d e. files w configPath = Some d \<and> read_fault w = None
                   \<and> yaml_Unmarshal w d = Inl e \<longrightarrow>
              WarnLoadConfig configPath (ParseConfigError configPath e) \<in> set (st_log s)
              \<and> cfg = zero_Config)))
    \<and> (\<forall>e. stat_fault w = Some e \<longrightarrow>
          main w = \<lparr>exit_code = 1,
                    final = log_Printf (FatalCheckConfig configPath (ErrOther e)) (initial w)\<rparr>)"
proof (intro conjI impI allI)
  assume sf: "stat_fault w = None"
  show "\<exists>cfg s. load_stage w configPath (initial w) = Cont cfg s
        \<and> main_body w = translate_stage w cfg s
        \<and> (\<forall>l \<in> set (st_log s). \<not> is_fatal l)
        \<and> (files w configPath = None \<longrightarrow>
              LogConfigNotExist configPath \<in> set (st_log s)
              \<and> (cfg = defaultConfig
                 \<or> (\<exists>d n. yaml_Marshal w defaultConfig = Inr d
                          \<and> yaml_Unmarshal w (take n d) = Inr cfg)))
        \<and> (\<forall>e. files w configPath = None \<and> yaml_Marshal w defaultConfig = Inl e \<longrightarrow>
              WarnMarshalDefault e \<in> set (st_log s) \<and> cfg = defaultConfig)
        \<and> (\<forall>d. files w configPath = None \<and> yaml_Marshal w defaultConfig = Inr d
                 \<and> write_fault w = None \<longrightarrow>
              LogDefaultGenerated configPath \<in> set (st_log s)
              \<and> cfg = (if read_fault w = None
                       then (case yaml_Unmarshal w d of Inr c \<Rightarrow> c | Inl e' \<Rightarrow> defaultConfig)
                       else defaultConfig))
        \<and> (\<forall>d e. files w configPath = None \<and> yaml_Marshal w defaultConfig = Inr d
                   \<and> write_fault w = Some (OpenFails e) \<longrightarrow>
              WarnWriteDefault configPath (ErrOther e) \<in> set (st_log s) \<and> cfg = defaultConfig)
        \<and> (\<forall>d e n. files w configPath = None \<and> yaml_Marshal w defaultConfig = Inr d
                   \<and> write_fault w = Some (WriteFails e n) \<longrightarrow>
              WarnWriteDefault configPath (ErrOther e) \<in> set (st_log s)
              \<and> cfg = (if read_fault w = None
                       then (case yaml_Unmarshal w (take n d) of
                               Inr c \<Rightarrow> c | Inl e' \<Rightarrow> defaultConfig)
                       else defaultConfig)
              \<and> (\<forall>e'. read_fault w = None \<and> yaml_Unmarshal w (take n d) = Inl e' \<longrightarrow>
                    WarnLoadConfig configPath (ParseConfigError configPath e') \<in> set (st_log s)))
        \<and> (\<forall>e. read_fault w = Some e \<longrightarrow>
              WarnLoadConfig configPath (ReadConfigError configPath (ErrOther e)) \<in> set (st_log s)
              \<and> cfg = (if files w configPath = None then defaultConfig else zero_Config))
        \<and> (\<forall>d e. files w configPath = Some d \<and> read_fault w = None
                   \<and> yaml_Unmarshal w d = Inl e \<longrightarrow>
              WarnLoadConfig configPath (ParseConfigError configPath e) \<in> set (st_log s)
              \<and> cfg = zero_Config)"
  proof (cases "files w configPath")
    case None
    show ?thesis
    proof (cases "yaml_Marshal w defaultConfig")
      case (Inl e)
      with None assms(2) sf show ?thesis
        unfolding configPath_def
        by (auto simp: main_body_def load_stage_def Let_def os_Stat_def os_IsNotExist_def
            initial_def loadConfig_def os_ReadFile_def log_Printf_def
            split: option.splits sum.splits)
    next
      case (Inr d)
      show ?thesis
      proof (cases "write_fault w")
        case wf: None
        show ?thesis
        proof (cases "read_fault w")
          case rf: None
          show ?thesis
          proof (cases "yaml_Unmarshal w d")
            case (Inl e')
            with rf wf Inr \<open>files w configPath = None\<close> assms(2) sf show ?thesis
              unfolding configPath_def
              by (simp add: main_body_def load_stage_def Let_def os_Stat_def os_IsNotExist_def
                  initial_def loadConfig_def os_ReadFile_def os_WriteFile_def log_Printf_def)
          next
            case c: (Inr c)
            have "yaml_Unmarshal w (take (length d) d) = Inr c"
              using c by simp
            then have ex: "\<exists>d' n. yaml_Marshal w defaultConfig = Inr d'
                \<and> yaml_Unmarshal w (take n d') = Inr c"
              using Inr by blast
            from c rf wf Inr \<open>files w configPath = None\<close> assms(2) sf ex show ?thesis
              unfolding configPath_def
              by (simp add: main_body_def load_stage_def Let_def os_Stat_def os_IsNotExist_def
                  initial_def loadConfig_def os_ReadFile_def os_WriteFile_def log_Printf_def)
          qed
        next
          case rf: (Some er)
          with wf Inr \<open>files w configPath = None\<close> assms(2) sf show ?thesis
            unfolding configPath_def
            by (simp add: main_body_def load_stage_def Let_def os_Stat_def os_IsNotExist_def
                initial_def loadConfig_def os_ReadFile_def os_WriteFile_def log_Printf_def)
        qed
      next
        case wf: (Some f)
        show ?thesis
        proof (cases f)
          case (OpenFails e)
          with wf Inr \<open>files w configPath = None\<close> assms(2) sf show ?thesis
            unfolding configPath_def
            by (auto simp: main_body_def load_stage_def Let_def os_Stat_def os_IsNotExist_def
                initial_def loadConfig_def os_ReadFile_def os_WriteFile_def log_Printf_def
                split: option.splits sum.splits)
        next
          case (WriteFails e n)
          show ?thesis
          proof (cases "read_fault w")
            case rf: None
            show ?thesis
            proof (cases "yaml_Unmarshal w (take n d)")
              case (Inl e')
              with rf wf WriteFails Inr \<open>files w configPath = None\<close> assms(2) sf show ?thesis
                unfolding configPath_def
                by (simp add: main_body_def load_stage_def Let_def os_Stat_def os_IsNotExist_def
                    initial_def loadConfig_def os_ReadFile_def os_WriteFile_def log_Printf_def)
            next
              case c: (Inr c)
              then have ex: "\<exists>d' n. yaml_Marshal w defaultConfig = Inr d'
                  \<and> yaml_Unmarshal w (take n d') = Inr c"
                using Inr by blast
              from c rf wf WriteFails Inr \<open>files w configPath = None\<close> assms(2) sf ex
              show ?thesis
                unfolding configPath_def
                by (simp add: main_body_def load_stage_def Let_def os_Stat_def os_IsNotExist_def
                    initial_def loadConfig_def os_ReadFile_def os_WriteFile_def log_Printf_def)
            qed
          next
            case rf: (Some er)
            with wf WriteFails Inr \<open>files w configPath = None\<close> assms(2) sf show ?thesis
              unfolding configPath_def
              by (simp add: main_body_def load_stage_def Let_def os_Stat_def os_IsNotExist_def
                  initial_def loadConfig_def os_ReadFile_def os_WriteFile_def log_Printf_def)
          qed
        qed
      qed
    qed
  next
    case (Some d)
    with assms(2) sf show ?thesis
      unfolding configPath_def
      by (auto simp: main_body_def load_stage_def Let_def os_Stat_def os_IsNotExist_def
          initial_def loadConfig_def os_ReadFile_def log_Printf_def
          split: option.splits sum.splits)
  qed
next
  fix e
  assume "stat_fault w = Some e"
  with assms(2) show "main w = \<lparr>exit_code = 1,
      final = log_Printf (FatalCheckConfig configPath (ErrOther e)) (initial w)\<rparr>"
    unfolding configPath_def
    by (simp add: main_def main_body_def load_stage_def os_Stat_def os_IsNotExist_def
        log_Fatalf_def Let_def)
qed

text \<open>
  C5, amended, at five runs: a first run on a read-only file system, a first run on a
  full disk (the write leaves an empty file, which is then loaded), an unreadable file,
  a file that is not YAML, and a failing \<open>os.Stat\<close>.
\<close>

theorem config_problems_not_fatal_witness:
  "(\<exists>cfg s. load_stage first_run_readonly_world ''/home/u/.deeplx-cli.yml''
                (initial first_run_readonly_world) = Cont cfg s
       \<and> main_body first_run_readonly_world = translate_stage first_run_readonly_world cfg s
       \<and> cfg = defaultConfig
       \<and> LogConfigNotExist ''/home/u/.deeplx-cli.yml'' \<in> set (st_log s)
       \<and> WarnWriteDefault ''/home/u/.deeplx-cli.yml'' (ErrOther ''read-only file system'')
            \<in> set (st_log s))
   \<and> (\<exists>cfg s. load_stage first_run_disk_full_world ''/home/u/.deeplx-cli.yml''
                (initial first_run_disk_full_world) = Cont cfg s
       \<and> main_body first_run_disk_full_world = translate_stage first_run_disk_full_world cfg s
       \<and> cfg = zero_Config
       \<and> WarnWriteDefault ''/home/u/.deeplx-cli.yml'' (ErrOther ''no space left on device'')
            \<in> set (st_log s))
   \<and> (\<exists>cfg s. load_stage unreadable_world ''/home/u/.deeplx-cli.yml''
                (initial unreadable_world) = Cont cfg s
       \<and> main_body unreadable_world = translate_stage unreadable_world cfg s
       \<and> cfg = zero_Config
       \<and> WarnLoadConfig ''/home/u/.deeplx-cli.yml''
            (ReadConfigError ''/home/u/.deeplx-cli.yml'' (ErrOther ''permission denied''))
            \<in> set (st_log s))
   \<and> (\<exists>cfg s. load_stage bad_yaml_world ''/home/u/.deeplx-cli.yml''
                (initial bad_yaml_world) = Cont cfg s
       \<and> main_body bad_yaml_world = translate_stage bad_yaml_world cfg s
       \<and> cfg = zero_Config
       \<and> WarnLoadConfig ''/home/u/.deeplx-cli.yml''
            (ParseConfigError ''/home/u/.deeplx-cli.yml'' ''yaml: unmarshal errors'')
            \<in> set (st_log s))
   \<and> exit_code (main stat_denied_world) = 1"
proof -
  have a: "user_Current first_run_readonly_world = Inr ''/home/u''"
    "stat_fault first_run_readonly_world = None"
    "user_Current unreadable_world = Inr ''/home/u''" "stat_fault unreadable_world = None"
    "user_Current bad_yaml_world = Inr ''/home/u''" "stat_fault bad_yaml_world = None"
    "user_Current stat_denied_world = Inr ''/home/u''"
    "stat_fault stat_denied_world = Some ''permission denied''"
    "user_Current first_run_disk_full_world = Inr ''/home/u''"
    "stat_fault first_run_disk_full_world = None"
    by (simp_all add: first_run_readonly_world_def unreadable_world_def bad_yaml_world_def
        stat_denied_world_def first_run_disk_full_world_def example_world_def)
  have f1: "filepath_Join first_run_readonly_world ''/home/u'' configFileName
              = ''/home/u/.deeplx-cli.yml''"
    "files first_run_readonly_world ''/home/u/.deeplx-cli.yml'' = None"
    "yaml_Marshal first_run_readonly_world defaultConfig = Inr default_yaml"
    "write_fault first_run_readonly_world = Some (OpenFails ''read-only file system'')"
    by (simp_all add: first_run_readonly_world_def example_world_def example_yaml_Marshal_def
        configFileName_def default_yaml_def defaultConfig_def defaultDeepLXAPI_def)
  have f2: "filepath_Join unreadable_world ''/home/u'' configFileName = ''/home/u/.deeplx-cli.yml''"
    "files unreadable_world ''/home/u/.deeplx-cli.yml'' \<noteq> None"
    "read_fault unreadable_world = Some ''permission denied''"
    by (simp_all add: unreadable_world_def example_world_def configFileName_def)
  have f3: "filepath_Join bad_yaml_world ''/home/u'' configFileName = ''/home/u/.deeplx-cli.yml''"
    "files bad_yaml_world ''/home/u/.deeplx-cli.yml'' = Some ''url: [''"
    "read_fault bad_yaml_world = None"
    "yaml_Unmarshal bad_yaml_world ''url: ['' = Inl ''yaml: unmarshal errors''"
    by (simp_all add: bad_yaml_world_def example_defs)
  have f4: "filepath_Join first_run_disk_full_world ''/home/u'' configFileName
              = ''/home/u/.deeplx-cli.yml''"
    "files first_run_disk_full_world ''/home/u/.deeplx-cli.yml'' = None"
    "yaml_Marshal first_run_disk_full_world defaultConfig = Inr default_yaml"
    "write_fault first_run_disk_full_world = Some (WriteFails ''no space left on device'' 0)"
    "read_fault first_run_disk_full_world = None"
    "yaml_Unmarshal first_run_disk_full_world [] = Inr zero_Config"
    by (simp_all add: first_run_disk_full_world_def example_world_def example_yaml_Marshal_def
        example_yaml_Unmarshal_def configFileName_def default_yaml_def defaultConfig_def
        defaultDeepLXAPI_def)
  have 1: "\<exists>cfg s. load_stage first_run_readonly_world ''/home/u/.deeplx-cli.yml''
                (initial first_run_readonly_world) = Cont cfg s
       \<and> main_body first_run_readonly_world = translate_stage first_run_readonly_world cfg s
       \<and> cfg = defaultConfig
       \<and> LogConfigNotExist ''/home/u/.deeplx-cli.yml'' \<in> set (st_log s)
       \<and> WarnWriteDefault ''/home/u/.deeplx-cli.yml'' (ErrOther ''read-only file system'')
            \<in> set (st_log s)"
    using config_problems_not_fatal[OF a(1)] a(2) f1 by (auto simp: f1(1))
  have 2: "\<exists>cfg s. load_stage first_run_disk_full_world ''/home/u/.deeplx-cli.yml''
                (initial first_run_disk_full_world) = Cont cfg s
       \<and> main_body first_run_disk_full_world = translate_stage first_run_disk_full_world cfg s
       \<and> cfg = zero_Config
       \<and> WarnWriteDefault ''/home/u/.deeplx-cli.yml'' (ErrOther ''no space left on device'')
            \<in> set (st_log s)"
    using config_problems_not_fatal[OF a(9)] a(10) f4 by (auto simp: f4(1))
  have 3: "\<exists>cfg s. load_stage unreadable_world ''/home/u/.deeplx-cli.yml''
                (initial unreadable_world) = Cont cfg s
       \<and> main_body unreadable_world = translate_stage unreadable_world cfg s
       \<and> cfg = zero_Config
       \<and> WarnLoadConfig ''/home/u/.deeplx-cli.yml''
            (ReadConfigError ''/home/u/.deeplx-cli.yml'' (ErrOther ''permission denied''))
            \<in> set (st_log s)"
    using config_problems_not_fatal[OF a(3)] a(4) f2 by (auto simp: f2(1))
  have 4: "\<exists>cfg s. load_stage bad_yaml_world ''/home/u/.deeplx-cli.yml''
                (initial bad_yaml_world) = Cont cfg s
       \<and> main_body bad_yaml_world = translate_stage bad_yaml_world cfg s
       \<and> cfg = zero_Config
       \<and> WarnLoadConfig ''/home/u/.deeplx-cli.yml''
            (ParseConfigError ''/home/u/.deeplx-cli.yml'' ''yaml: unmarshal errors'')
            \<in> set (st_log s)"
    using config_problems_not_fatal[OF a(5)] a(6) f3 by (auto simp: f3(1))
  have 5: "exit_code (main stat_denied_world) = 1"
    using config_problems_not_fatal[OF a(7)] a(8) by simp
  show ?thesis
    using 1 2 3 4 5 by blast
qed

text \<open>
  C8. In the run where the configuration file is found absent (the home directory is
  known, \<open>os.Stat\<close> reports just the absence, and the default document serialises), the
  program calls \<open>os.WriteFile\<close> exactly once, on the configuration path with the
  serialised default document; afterwards the path holds that document, or what a
  failed write left of it. In every run where the file exists already there is no call
  of \<open>os.WriteFile\<close> at all and the files are unchanged, whether or not the file parses.
  And no run writes anything else: either nothing is written and the files are
  unchanged, or the run is one of the first kind.
\<close>

theorem config_written_only_when_absent:
  fixes w
  defines "out \<equiv> final (main w)"
  shows "(\<forall>h. user_Current w = Inr h \<and> files w (filepath_Join w h configFileName) \<noteq> None \<longrightarrow>
            st_writes out = [] \<and> st_files out = files w)
       \<and> (\<forall>h yamlData. user_Current w = Inr h
              \<and> files w (filepath_Join w h configFileName) = None
              \<and> stat_fault w = None
              \<and> yaml_Marshal w defaultConfig = Inr yamlData \<longrightarrow>
            st_writes out = [(filepath_Join w h configFileName, yamlData)]
            \<and> st_files out =
                (case write_fault w of
                   None \<Rightarrow> (files w)(filepath_Join w h configFileName \<mapsto> yamlData)
                 | Some (OpenFails e) \<Rightarrow> files w
                 | Some (WriteFails e n) \<Rightarrow>
                     (files w)(filepath_Join w h configFileName \<mapsto> take n yamlData)))
       \<and> ((st_writes out = [] \<and> st_files out = files w)
          \<or> (\<exists>h yamlData. user_Current w = Inr h
                \<and> files w (filepath_Join w h configFileName) = None
                \<and> stat_fault w = None
                \<and> yaml_Marshal w defaultConfig = Inr yamlData
                \<and> st_writes out = [(filepath_Join w h configFileName, yamlData)]))"
proof (cases "user_Current w")
  case (Inl err)
  then show ?thesis
    by (simp add: out_def final_main main_body_def log_Fatalf_def log_Printf_def initial_def)
next
  case (Inr h)
  let ?p = "filepath_Join w h configFileName"
  have ts: "st_writes (run_state (translate_stage w cfg s)) = st_writes s
          \<and> st_files (run_state (translate_stage w cfg s)) = st_files s" for cfg s
    using inputText_frame(2,3)[of w s]
    by (auto simp: translate_stage_def Let_def fmt_Print_def log_Fatalf_def log_Printf_def
        split: run.splits prod.splits sum.splits option.splits)
  have fin: "st_writes out = st_writes (run_state (load_stage w ?p (initial w)))
           \<and> st_files out = st_files (run_state (load_stage w ?p (initial w)))"
    using Inr ts by (simp add: out_def final_main main_body_def Let_def split: run.splits)
  have present: "files w ?p \<noteq> None \<Longrightarrow>
      st_writes (run_state (load_stage w ?p (initial w))) = []
      \<and> st_files (run_state (load_stage w ?p (initial w))) = files w"
    by (auto simp: load_stage_def Let_def os_Stat_def os_IsNotExist_def initial_def
        log_Fatalf_def log_Printf_def split: option.splits sum.splits)
  have fault: "stat_fault w \<noteq> None \<Longrightarrow>
      st_writes (run_state (load_stage w ?p (initial w))) = []
      \<and> st_files (run_state (load_stage w ?p (initial w))) = files w"
    by (auto simp: load_stage_def Let_def os_Stat_def os_IsNotExist_def initial_def
        log_Fatalf_def log_Printf_def split: option.splits sum.splits)
  have nomarshal: "\<And>e. yaml_Marshal w defaultConfig = Inl e \<Longrightarrow>
      st_writes (run_state (load_stage w ?p (initial w))) = []
      \<and> st_files (run_state (load_stage w ?p (initial w))) = files w"
    by (auto simp: load_stage_def Let_def os_Stat_def os_IsNotExist_def initial_def
        log_Fatalf_def log_Printf_def split: option.splits sum.splits)
  have absent: "\<And>d. files w ?p = None \<Longrightarrow> stat_fault w = None \<Longrightarrow>
      yaml_Marshal w defaultConfig = Inr d \<Longrightarrow>
      st_writes (run_state (load_stage w ?p (initial w))) = [(?p, d)]
      \<and> st_files (run_state (load_stage w ?p (initial w)))
          = (case write_fault w of
               None \<Rightarrow> (files w)(?p \<mapsto> d)
             | Some (OpenFails e) \<Rightarrow> files w
             | Some (WriteFails e n) \<Rightarrow> (files w)(?p \<mapsto> take n d))"
    by (auto simp: load_stage_def Let_def os_Stat_def os_IsNotExist_def initial_def
        os_WriteFile_def log_Fatalf_def log_Printf_def
        split: option.splits sum.splits write_failure.splits)
  show ?thesis
  proof (cases "files w ?p = None \<and> stat_fault w = None")
    case False
    with present fault fin Inr show ?thesis by auto
  next
    case True
    show ?thesis
    proof (cases "yaml_Marshal w defaultConfig")
      case (Inl e)
      with nomarshal[OF Inl] fin Inr True show ?thesis by auto
    next
      case (Inr d)
      with absent[of d] fin \<open>user_Current w = Inr h\<close> True show ?thesis by auto
    qed
  qed
qed

text \<open>
  C8 at a first run, which writes the default document once and leaves it at the path,
  and at the end-to-end run, whose configuration file exists: nothing is written.
\<close>

theorem config_written_only_when_absent_witness:
  "st_writes (final (main first_run_world)) = [(''/home/u/.deeplx-cli.yml'', default_yaml)]
   \<and> st_files (final (main first_run_world)) ''/home/u/.deeplx-cli.yml'' = Some default_yaml
   \<and> st_writes (final (main example_world)) = []
   \<and> st_files (final (main example_world)) = files example_world"
proof -
  have e: "user_Current example_world = Inr ''/home/u''"
    "files example_world (filepath_Join example_world ''/home/u'' configFileName) \<noteq> None"
    by (simp_all add: example_defs)
  have f: "user_Current first_run_world = Inr ''/home/u''"
    "filepath_Join first_run_world ''/home/u'' configFileName = ''/home/u/.deeplx-cli.yml''"
    "files first_run_world ''/home/u/.deeplx-cli.yml'' = None"
    "stat_fault first_run_world = None"
    "write_fault first_run_world = None"
    "yaml_Marshal first_run_world defaultConfig = Inr default_yaml"
    by (simp_all add: first_run_world_def example_world_def example_yaml_Marshal_def
        configFileName_def default_yaml_def defaultConfig_def defaultDeepLXAPI_def)
  have g: "files first_run_world (filepath_Join first_run_world ''/home/u'' configFileName) = None"
    by (simp add: f)
  have 1: "st_writes (final (main example_world)) = []
      \<and> st_files (final (main example_world)) = files example_world"
    using e config_written_only_when_absent[of example_world] by blast
  have "st_writes (final (main first_run_world))
          = [(filepath_Join first_run_world ''/home/u'' configFileName, default_yaml)]
      \<and> st_files (final (main first_run_world)) =
          (case write_fault first_run_world of
             None \<Rightarrow> (files first_run_world)
                       (filepath_Join first_run_world ''/home/u'' configFileName \<mapsto> default_yaml)
           | Some (OpenFails e) \<Rightarrow> files first_run_world
           | Some (WriteFails e n) \<Rightarrow> (files first_run_world)
                       (filepath_Join first_run_world ''/home/u'' configFileName
                          \<mapsto> take n default_yaml))"
    using g f(1,4,6) config_written_only_when_absent[of first_run_world] by blast
  then have 2: "st_writes (final (main first_run_world))
          = [(''/home/u/.deeplx-cli.yml'', default_yaml)]
      \<and> st_files (final (main first_run_world)) ''/home/u/.deeplx-cli.yml'' = Some default_yaml"
    by (simp add: f)
  show ?thesis
    using 1 2 by blast
qed

section \<open>The output sink\<close>

text \<open>
  C7. Whatever \<open>clipboard.WriteAll\<close> answers, the run has the same exit code, the same
  bytes on standard output and the same log lines: replacing the clipboard's behaviour
  by any other changes none of them. So after a successful translation a clipboard
  failure changes neither the printed text nor the exit code.
\<close>

theorem clipboard_failure_is_silent:
  "exit_code (main (w\<lparr>clipboard_WriteAll := f\<rparr>)) = exit_code (main w)
   \<and> st_stdout (final (main (w\<lparr>clipboard_WriteAll := f\<rparr>))) = st_stdout (final (main w))
   \<and> st_log (final (main (w\<lparr>clipboard_WriteAll := f\<rparr>))) = st_log (final (main w))"
proof -
  let ?w = "w\<lparr>clipboard_WriteAll := f\<rparr>"
  have sel: "user_Current ?w = user_Current w" "filepath_Join ?w = filepath_Join w"
    "files ?w = files w" "stat_fault ?w = stat_fault w" "write_fault ?w = write_fault w"
    "read_fault ?w = read_fault w" "yaml_Marshal ?w = yaml_Marshal w"
    "yaml_Unmarshal ?w = yaml_Unmarshal w" "version ?w = version w"
    "command_line ?w = command_line w" "stdin ?w = stdin w" "network ?w = network w"
    by simp_all
  have ld: "load_stage ?w p s = load_stage w p s" for p s
    unfolding load_stage_def os_Stat_def os_WriteFile_def loadConfig_def os_ReadFile_def sel
    by (rule refl)
  have it: "inputText ?w s = inputText w s" for s
    unfolding inputText_def sel by (rule refl)
  have ini: "initial ?w = initial w"
    unfolding initial_def sel by (rule refl)
  have ts: "(case translate_stage ?w cfg s of Exit c s' \<Rightarrow> (c, st_stdout s', st_log s')
                                      | Cont u s' \<Rightarrow> (0, st_stdout s', st_log s'))
          = (case translate_stage w cfg s of Exit c s' \<Rightarrow> (c, st_stdout s', st_log s')
                                      | Cont u s' \<Rightarrow> (0, st_stdout s', st_log s'))" for cfg s
    unfolding translate_stage_def it sel
    by (simp add: Let_def fmt_Print_def log_Fatalf_def log_Printf_def
        split: run.splits prod.splits sum.splits option.splits)
  have "(case main_body ?w of Exit c s' \<Rightarrow> (c, st_stdout s', st_log s')
                            | Cont u s' \<Rightarrow> (0, st_stdout s', st_log s'))
      = (case main_body w of Exit c s' \<Rightarrow> (c, st_stdout s', st_log s')
                            | Cont u s' \<Rightarrow> (0, st_stdout s', st_log s'))"
    unfolding main_body_def ld ini sel
    using ts by (simp add: Let_def log_Fatalf_def split: sum.splits run.splits)
  then show ?thesis
    by (simp add: main_def split: run.splits)
qed

text \<open>
  C7 at the end-to-end run with a clipboard that fails: the run still prints \<open>X\<close> and
  exits with status 0; only the clipboard is left without the text.
\<close>

theorem clipboard_failure_is_silent_witness:
  "exit_code (main no_clipboard_world) = 0
   \<and> st_stdout (final (main no_clipboard_world)) = ''X'' @ newline
   \<and> st_clipboard (final (main no_clipboard_world)) = None
   \<and> st_clipboard (final (main example_world)) = Some ''X''"
proof -
  have c: "st_clipboard (final (main no_clipboard_world)) = None"
    "st_clipboard (final (main example_world)) = Some ''X''"
    by (simp_all add: no_clipboard_world_def example_defs run_defs)
  show ?thesis
    using clipboard_failure_is_silent[where w = example_world
        and f = "\<lambda>t. Some ''no clipboard utility''"]
      example_main c
    by (simp add: no_clipboard_world_def)
qed

end
